theory Spec2Isabelle
  imports Main "HOL-Library.Word" "HOL-Library.Signed_Division"
begin

section \<open>The CSV reader used by the operation handler\<close>

text \<open>
  \<^verbatim>\<open>handleReceivedMessage\<close> decodes the payload with Go's \<^verbatim>\<open>encoding/csv\<close>:
  \<^verbatim>\<open>csv.NewReader(strings.NewReader(message))\<close> followed by \<^verbatim>\<open>ReadAll\<close>. The reader keeps
  its default options: the delimiter is the comma, no comment character, strict quotes
  (\<^verbatim>\<open>LazyQuotes = false\<close>), no trimming of leading space, and \<^verbatim>\<open>FieldsPerRecord = 0\<close>, which
  makes the field count of the first record mandatory for every later record.
  A Go string is a sequence of bytes, as a HOL \<^typ>\<open>string\<close> is.
\<close>

abbreviation newline :: char where "newline \<equiv> CHR 0x0A"
abbreviation carriageReturn :: char where "carriageReturn \<equiv> CHR 0x0D"
abbreviation quote :: char where "quote \<equiv> CHR 0x22"
abbreviation comma :: char where "comma \<equiv> CHR 0x2C"

datatype csvError = ErrBareQuote | ErrQuote | ErrFieldCount

text \<open>\<^verbatim>\<open>lengthNL\<close>: 1 when the line ends with a newline, 0 otherwise.\<close>

definition lengthNL :: "string \<Rightarrow> nat" where
  "lengthNL b = (if b \<noteq> [] \<and> last b = newline then 1 else 0)"

text \<open>
  \<^verbatim>\<open>readLine\<close> returns the input up to and including the next newline. A last line without
  newline loses a trailing carriage return, and a line ending in carriage return and newline
  is normalised to end in the newline alone. \<open>readLines cur input\<close> lists the results of
  the successive \<^verbatim>\<open>readLine\<close> calls until end of input, \<open>cur\<close> being the bytes of the
  current line read so far.
\<close>

definition lastLine :: "string \<Rightarrow> string" where
  "lastLine line = (if last line = carriageReturn then butlast line else line)"

definition normalizeLine :: "string \<Rightarrow> string" where
  "normalizeLine line =
     (if 2 \<le> length line \<and> last (butlast line) = carriageReturn \<and> last line = newline
      then butlast (butlast line) @ [newline] else line)"

fun readLines :: "string \<Rightarrow> string \<Rightarrow> string list" where
  "readLines cur [] = (if cur = [] then [] else [lastLine cur])"
| "readLines cur (c # cs) =
     (if c = newline then normalizeLine (cur @ [c]) # readLines [] cs
      else readLines (cur @ [c]) cs)"

text \<open>
  \<^verbatim>\<open>readRecord\<close>, the field loop. \<open>parseField line rest\<close> parses the fields of the record
  that starts in \<open>line\<close>, \<open>rest\<close> being the lines not read yet; it returns the fields and
  the lines left. An unquoted field runs to the next comma or to the end of the line and must
  not contain a quote. \<open>parseQuoted buf line rest\<close> is the inner loop of a quoted field
  whose opening quote is consumed: \<open>buf\<close> is the text of the field so far. A doubled quote
  stands for one quote, a quote before a comma or before the end of the line closes the field,
  any other quote is an error; a quoted field without closing quote in its line goes on in
  the next line, and at end of input it is an error.
\<close>

lemma dropWhile_minus_less: "xs \<noteq> [] \<Longrightarrow> length (dropWhile P xs) - Suc n < length xs"
  using length_dropWhile_le [of P xs] by (cases xs) auto

function parseField :: "string \<Rightarrow> string list \<Rightarrow> csvError + (string list \<times> string list)"
  and parseQuoted :: "string \<Rightarrow> string \<Rightarrow> string list \<Rightarrow> csvError + (string list \<times> string list)"
where
  "parseField line rest =
     (if line = [] \<or> hd line \<noteq> quote then
        (let after = dropWhile (\<lambda>c. c \<noteq> comma) line;
             field = (if after \<noteq> [] then takeWhile (\<lambda>c. c \<noteq> comma) line
                      else take (length line - lengthNL line) line)
         in if quote \<in> set field then Inl ErrBareQuote
            else if after \<noteq> [] then
              (case parseField (tl after) rest of
                 Inl e \<Rightarrow> Inl e
               | Inr (fields, left) \<Rightarrow> Inr (field # fields, left))
            else Inr ([field], rest))
      else parseQuoted [] (tl line) rest)"
| "parseQuoted buf line rest =
     (let after = dropWhile (\<lambda>c. c \<noteq> quote) line
      in if after \<noteq> [] then
           (let buf' = buf @ takeWhile (\<lambda>c. c \<noteq> quote) line;
                line' = tl after
            in if line' \<noteq> [] \<and> hd line' = quote then parseQuoted (buf' @ [quote]) (tl line') rest
               else if line' \<noteq> [] \<and> hd line' = comma then
                 (case parseField (tl line') rest of
                    Inl e \<Rightarrow> Inl e
                  | Inr (fields, left) \<Rightarrow> Inr (buf' # fields, left))
               else if lengthNL line' = length line' then Inr ([buf'], rest)
               else Inl ErrQuote)
         else if line \<noteq> [] then
           (case rest of
              [] \<Rightarrow> Inl ErrQuote
            | next # rest' \<Rightarrow> parseQuoted (buf @ line) next rest')
         else Inl ErrQuote)"
  by pat_completeness auto

termination
  by (relation "measure (\<lambda>x. case x of
        Inl (line, rest) \<Rightarrow> length line + sum_list (map (\<lambda>l. Suc (length l)) rest)
      | Inr (buf, line, rest) \<Rightarrow> length line + sum_list (map (\<lambda>l. Suc (length l)) rest))")
     (auto intro!: dropWhile_minus_less)

declare parseField.simps [simp del] parseQuoted.simps [simp del]

text \<open>The field loop never hands back more unread lines than it was given.\<close>

lemma parse_left:
  "parseField line rest = Inr (fs, left) \<Longrightarrow> length left \<le> length rest"
  "parseQuoted buf line rest = Inr (fs, left) \<Longrightarrow> length left \<le> length rest"
proof (induction line rest and buf line rest arbitrary: fs left and fs left rule: parseField_parseQuoted.induct)
  case (1 line rest)
  let ?after = "dropWhile (\<lambda>c. c \<noteq> comma) line"
  show ?case
  proof (cases "line = [] \<or> hd line \<noteq> quote")
    case unquoted: True
    show ?thesis
    proof (cases "?after \<noteq> []")
      case more: True
      from "1.prems" unquoted more obtain fs'
        where nq: "quote \<notin> set (takeWhile (\<lambda>c. c \<noteq> comma) line)"
          and eq: "parseField (tl ?after) rest = Inr (fs', left)"
        by (subst (asm) parseField.simps) (auto simp: Let_def split: if_splits sum.splits)
      show ?thesis
        by (rule "1.IH"(1) [OF unquoted refl refl _ more eq]) (use more nq in simp)
    next
      case False
      with "1.prems" unquoted have "left = rest"
        by (subst (asm) parseField.simps) (auto simp: Let_def split: if_splits sum.splits)
      then show ?thesis by simp
    qed
  next
    case False
    with "1.prems" have "parseQuoted [] (tl line) rest = Inr (fs, left)"
      by (subst (asm) parseField.simps) simp
    from "1.IH"(2) [OF False this] show ?thesis .
  qed
next
  case (2 buf line rest)
  let ?after = "dropWhile (\<lambda>c. c \<noteq> quote) line"
  let ?line' = "tl ?after"
  show ?case
  proof (cases "?after \<noteq> []")
    case closing: True
    consider (dq) "?line' \<noteq> [] \<and> hd ?line' = quote"
      | (cm) "\<not> (?line' \<noteq> [] \<and> hd ?line' = quote)" "?line' \<noteq> [] \<and> hd ?line' = comma"
      | (other) "\<not> (?line' \<noteq> [] \<and> hd ?line' = quote)" "\<not> (?line' \<noteq> [] \<and> hd ?line' = comma)"
      by blast
    then show ?thesis
    proof cases
      case dq
      with "2.prems" closing obtain b where "parseQuoted b (tl ?line') rest = Inr (fs, left)"
        "b = (buf @ takeWhile (\<lambda>c. c \<noteq> quote) line) @ [quote]"
        by (subst (asm) parseQuoted.simps) (auto simp: Let_def)
      then show ?thesis
        using "2.IH"(1) [OF refl closing refl refl dq] by simp
    next
      case cm
      with "2.prems" closing obtain fs' where "parseField (tl ?line') rest = Inr (fs', left)"
        by (subst (asm) parseQuoted.simps) (auto simp: Let_def split: sum.splits)
      then show ?thesis
        using "2.IH"(2) [OF refl closing refl refl cm] by simp
    next
      case other
      with "2.prems" closing have "left = rest"
        by (subst (asm) parseQuoted.simps) (auto simp: Let_def split: if_splits)
      then show ?thesis by simp
    qed
  next
    case False
    with "2.prems" obtain nxt rest' where r: "rest = nxt # rest'" and ne: "line \<noteq> []"
      and eq: "parseQuoted (buf @ line) nxt rest' = Inr (fs, left)"
      by (subst (asm) parseQuoted.simps) (auto simp: Let_def split: if_splits list.splits)
    from "2.IH"(3) [OF refl False ne r eq] r show ?thesis by simp
  qed
qed

text \<open>
  \<^verbatim>\<open>ReadAll\<close> calls \<^verbatim>\<open>readRecord\<close> until end of input. Each call first skips the empty
  lines (a line that is only its newline). The first record fixes \<^verbatim>\<open>FieldsPerRecord\<close>; a
  later record with another field count is the error \<^verbatim>\<open>ErrFieldCount\<close>. On any error
  \<^verbatim>\<open>ReadAll\<close> returns the error and no records.
\<close>

function readRecords :: "nat \<Rightarrow> string list \<Rightarrow> csvError + string list list" where
  "readRecords fieldsPerRecord lines =
     (case dropWhile (\<lambda>line. length line = lengthNL line) lines of
        [] \<Rightarrow> Inr []
      | line # rest \<Rightarrow>
          (case parseField line rest of
             Inl e \<Rightarrow> Inl e
           | Inr (fields, left) \<Rightarrow>
               if 0 < fieldsPerRecord \<and> length fields \<noteq> fieldsPerRecord then Inl ErrFieldCount
               else
                 (case readRecords (if fieldsPerRecord = 0 then length fields else fieldsPerRecord) left of
                    Inl e \<Rightarrow> Inl e
                  | Inr records \<Rightarrow> Inr (fields # records))))"
  by pat_completeness auto

termination
proof (relation "measure (\<lambda>(fieldsPerRecord, lines). length lines)")
  fix fieldsPerRecord :: nat and lines line rest x fields left
  assume skip: "dropWhile (\<lambda>line. length line = lengthNL line) lines = line # rest"
    and parsed: "parseField line rest = Inr x" "(fields, left) = x"
  from parsed have "length left \<le> length rest"
    using parse_left(1) [of line rest fields left] by simp
  moreover have "length (line # rest) \<le> length lines"
    using length_dropWhile_le [of "\<lambda>line. length line = lengthNL line" lines] skip by simp
  ultimately show "((if fieldsPerRecord = 0 then length fields else fieldsPerRecord, left),
      (fieldsPerRecord, lines)) \<in> measure (\<lambda>(fieldsPerRecord, lines). length lines)"
    by simp
qed simp

declare readRecords.simps [simp del]

definition ReadAll :: "string \<Rightarrow> csvError + string list list" where
  "ReadAll input = readRecords 0 (readLines [] input)"

section \<open>The MQTT client and the log\<close>

text \<open>
  The broker connection is an external collaborator. What the program does to it is the
  sequence of \<^verbatim>\<open>client.Publish(topic, qos, retained, payload)\<close> calls, recorded in
  \<open>published\<close>. Every call returns a token; \<open>tokenError\<close> is the transport's answer, the
  error the token reports after \<^verbatim>\<open>Wait\<close> (\<open>None\<close> for success). The record also carries
  the lines written by \<^verbatim>\<open>slog.Info\<close>, message and key/value arguments. \<^verbatim>\<open>time.Sleep\<close> has
  no effect on either and is left out.
\<close>

record publication =
  Topic :: string
  Qos :: "8 word"
  Retained :: bool
  Payload :: string

datatype logValue =
    Str string
  | Strs "string list"
  | Maps "(string \<rightharpoonup> string) list"
  | Byte "8 word"
  | Bool bool

record logEntry =
  logMsg :: string
  logArgs :: "(string \<times> logValue) list"

record client =
  tokenError :: "publication \<Rightarrow> string option"
  published :: "publication list"
  logged :: "logEntry list"

record mqttMessage =
  msgTopic :: string
  msgPayload :: string

definition slogInfo :: "client \<Rightarrow> string \<Rightarrow> (string \<times> logValue) list \<Rightarrow> client" where
  "slogInfo client m as = client\<lparr>logged := logged client @ [\<lparr>logMsg = m, logArgs = as\<rparr>]\<rparr>"

definition Publish :: "client \<Rightarrow> string \<Rightarrow> 8 word \<Rightarrow> bool \<Rightarrow> string \<Rightarrow> string option \<times> client" where
  "Publish client t q r m =
     (let p = \<lparr>Topic = t, Qos = q, Retained = r, Payload = m\<rparr>
      in (tokenError client p, client\<lparr>published := published client @ [p]\<rparr>))"

text \<open>
  \<^verbatim>\<open>publishMqttMessage\<close> publishes, waits for the token and logs. It has no result in Go,
  and it never reads the token's error.
\<close>

definition publishMqttMessage :: "client \<Rightarrow> string \<Rightarrow> string \<Rightarrow> client" where
  "publishMqttMessage client topic message =
     (let qos = 1;
          retained = False;
          pubTopic = topic;
          (token, client) = Publish client pubTopic qos retained message
      in slogInfo client ''Published Message''
           [(''topic'', Str pubTopic), (''msg'', Str message), (''qos'', Byte qos),
            (''retained'', Bool retained)])"

definition publishSmartRestMessage :: "client \<Rightarrow> string \<Rightarrow> client" where
  "publishSmartRestMessage client message = publishMqttMessage client ''s/us'' message"

definition publishJsonViaMqttMessage :: "client \<Rightarrow> string \<Rightarrow> string \<Rightarrow> client" where
  "publishJsonViaMqttMessage client topic jsonMessage = publishMqttMessage client topic jsonMessage"

section \<open>Startup and telemetry\<close>

definition deviceName :: string where "deviceName = ''showcase-device-01''"
definition deviceSerial :: string where "deviceSerial = ''kobu-sn-7123''"

text \<open>
  The two rows of the startup sequence that are built from a variable: device creation,
  \<^verbatim>\<open>"100,"+deviceName+",yourDeviceType"\<close>, and hardware information,
  \<^verbatim>\<open>"110,"+deviceName+",myHardwareModel,1.2.3"\<close>. The name is put between the commas as
  it is.
\<close>

definition deviceCreationRow :: "string \<Rightarrow> string" where
  "deviceCreationRow name = ''100,'' @ name @ '',yourDeviceType''"

definition hardwareRow :: "string \<Rightarrow> string" where
  "hardwareRow name = ''110,'' @ name @ '',myHardwareModel,1.2.3''"

text \<open>The JSON document with the customer-specific fragment, sent through the JSON-via-MQTT API.\<close>

definition customFragment :: string where
  "customFragment =
     ''{'' @ [quote] @ ''yourCustomFragment'' @ [quote] @ '':{'' @ [quote] @ ''a'' @ [quote]
       @ '':'' @ [quote] @ ''abc'' @ [quote] @ '', '' @ [quote] @ ''b'' @ [quote]
       @ '':123, '' @ [quote] @ ''c'' @ [quote] @ '':[1,2,3]}}''"

definition setDeviceProperties :: "client \<Rightarrow> string \<Rightarrow> string \<Rightarrow> client" where
  "setDeviceProperties client name serial =
     (let client = publishSmartRestMessage client ''115,firmwareName,firmwareVersion,firmwareUrl'';
          client = publishSmartRestMessage client
            ''116,software1,1.0.1,url1,software2,1.0.2,url2,software3,1.0.3'';
          client = publishSmartRestMessage client (hardwareRow name);
          client = publishSmartRestMessage client ''112,50.323423,6.423423'';
          client = publishSmartRestMessage client ''118,dpkg,container,logread'';
          client = publishSmartRestMessage client
            (''122,your-device-agent,0.1,https://cumulocity.com,'' @ [quote] @ ''Korbinian Butz''
               @ [quote]);
          client = publishSmartRestMessage client ''117,60''
      in publishJsonViaMqttMessage client (''inventory/managedObjects/update/'' @ serial)
           customFragment)"

text \<open>
  The publishes of \<^verbatim>\<open>main\<close> after a successful connect: device creation, the capability
  declaration and the device properties.
\<close>

definition mainStartup :: "client \<Rightarrow> client" where
  "mainStartup client =
     (let client = publishSmartRestMessage client (deviceCreationRow deviceName);
          client = publishSmartRestMessage client
            ''114,c8y_Firmware,c8y_Restart,c8y_SoftwareList,c8y_SoftwareUpdate,c8y_LogfileRequest,c8y_RemoteAccessConnect,c8y_DeviceProfile''
      in setDeviceProperties client deviceName deviceSerial)"

text \<open>The six-line batch of measurements, event and alarm sent in every telemetry round.\<close>

definition telemetryMsg :: string where
  "telemetryMsg =
     [newline] @ ''200,temperature,T,15'' @ [newline]
     @ ''200,pressure,p,15'' @ [newline]
     @ ''200,yourMeasurementCategory,yourMeasurementName,16'' @ [newline]
     @ ''201,yourMeaType,,c8y_SinglePhaseEnergyMeasurement,A1,1234,kWh,c8y_SinglePhaseEnergyMeasurement,A2,2345,kWh''
     @ [newline]
     @ ''400,yourEventType,'' @ [quote] @ ''Your Event description'' @ [quote] @ [newline]
     @ ''301,yourAlarmType,'' @ [quote] @ ''here is your alarm text'' @ [quote] @ [newline]"

text \<open>
  \<^verbatim>\<open>generateMeasurementsEventsAlarms\<close> loops forever and never returns. The model runs a given
  number of rounds and returns the client after them. The JSON builder \<^verbatim>\<open>sjson.Set\<close> and the
  clock are external: \<open>sjsonSet\<close> is the builder (its error is dropped by the source),
  \<open>now k\<close> the formatted time read in round \<open>k\<close>.
\<close>

datatype jsonValue = JString string | JInt int

definition eventJson :: "(string \<Rightarrow> string \<Rightarrow> jsonValue \<Rightarrow> string) \<Rightarrow> string \<Rightarrow> string" where
  "eventJson sjsonSet time =
     (let json = ''{}'';
          json = sjsonSet json ''time'' (JString time);
          json = sjsonSet json ''text'' (JString ''Your new Event'');
          json = sjsonSet json ''type'' (JString ''myCustomEventType'');
          json = sjsonSet json ''yourCustomFragment'' (JInt 123)
      in json)"

fun generateMeasurementsEventsAlarms ::
  "(string \<Rightarrow> string \<Rightarrow> jsonValue \<Rightarrow> string) \<Rightarrow> (nat \<Rightarrow> string) \<Rightarrow> nat \<Rightarrow> client \<Rightarrow> client" where
  "generateMeasurementsEventsAlarms sjsonSet now 0 client = client"
| "generateMeasurementsEventsAlarms sjsonSet now (Suc k) client =
     (let client = generateMeasurementsEventsAlarms sjsonSet now k client;
          client = publishSmartRestMessage client telemetryMsg;
          json = eventJson sjsonSet (now k)
      in publishJsonViaMqttMessage client ''event/events/create'' json)"

section \<open>The operation handler\<close>

text \<open>
  Go checks every slice index at run time: an index outside the slice is a panic, which ends
  the handler (and the process, nothing recovers it). The handler's result is how it ended,
  with the client as it is at that moment.
\<close>

datatype error = IndexOutOfRange

datatype outcome = Returned | Panicked error

definition index :: "'a list \<Rightarrow> nat \<Rightarrow> error + 'a" where
  "index xs i = (if i < length xs then Inr (xs ! i) else Inl IndexOutOfRange)"

definition orPanic :: "client \<Rightarrow> error + 'a \<Rightarrow> ('a \<Rightarrow> outcome \<times> client) \<Rightarrow> outcome \<times> client" where
  "orPanic client r k = (case r of Inl e \<Rightarrow> (Panicked e, client) | Inr v \<Rightarrow> k v)"

text \<open>
  The loop of the software update branch: package \<open>i\<close> is read from the four fields that
  start at index \<open>2 + i * 4\<close>. \<open>collect\<close> runs the iterations in order and stops at the
  first panic.
\<close>

definition softwarePackage :: "string list \<Rightarrow> nat \<Rightarrow> error + (string \<rightharpoonup> string)" where
  "softwarePackage record i =
     (case index record (2 + (i * 4)) of Inl e \<Rightarrow> Inl e | Inr name \<Rightarrow>
      case index record (2 + (i * 4) + 1) of Inl e \<Rightarrow> Inl e | Inr version \<Rightarrow>
      case index record (2 + (i * 4) + 2) of Inl e \<Rightarrow> Inl e | Inr url \<Rightarrow>
      case index record (2 + (i * 4) + 3) of Inl e \<Rightarrow> Inl e | Inr action \<Rightarrow>
        Inr [''name'' \<mapsto> name, ''version'' \<mapsto> version, ''url'' \<mapsto> url, ''action'' \<mapsto> action])"

primrec collect :: "(error + 'a) list \<Rightarrow> error + 'a list" where
  "collect [] = Inr []"
| "collect (r # rs) =
     (case r of Inl e \<Rightarrow> Inl e | Inr v \<Rightarrow>
      case collect rs of Inl e \<Rightarrow> Inl e | Inr vs \<Rightarrow> Inr (v # vs))"

text \<open>
  \<^verbatim>\<open>countSoftwarePackages := (len(record) - 2) / 4\<close> is a division of Go's \<^verbatim>\<open>int\<close>, which
  rounds towards zero; the loop \<^verbatim>\<open>for i := range countSoftwarePackages\<close> runs for
  \<open>i = 0, \<dots>, countSoftwarePackages - 1\<close> and not at all for a count below one.
\<close>

definition countSoftwarePackages :: "string list \<Rightarrow> int" where
  "countSoftwarePackages record = (int (length record) - 2) sdiv 4"

definition receivedSoftwarePackages :: "string list \<Rightarrow> error + (string \<rightharpoonup> string) list" where
  "receivedSoftwarePackages record =
     collect (map (softwarePackage record) [0..<nat (countSoftwarePackages record)])"

text \<open>
  \<open>handleRecord\<close> is the \<^verbatim>\<open>switch templateId\<close> of \<^verbatim>\<open>handleReceivedMessage\<close>, applied to the
  record the handler picked. The arguments of a \<^verbatim>\<open>slog.Info\<close> call are evaluated, in order,
  before the call, so an index out of range in them panics before the line is logged.
\<close>

text \<open>
  The inventory row of the firmware branch, \<^verbatim>\<open>fmt.Sprintf("115,%s,%s,%s", fwName, fwVersion, fwUrl)\<close>:
  the three values are put between the commas as they are.
\<close>

definition firmwareRow :: "string \<Rightarrow> string \<Rightarrow> string \<Rightarrow> string" where
  "firmwareRow fwName fwVersion fwUrl = ''115,'' @ fwName @ '','' @ fwVersion @ '','' @ fwUrl"

definition handleRecord :: "client \<Rightarrow> string list \<Rightarrow> outcome \<times> client" where
  "handleRecord client record =
     orPanic client (index record 0) (\<lambda>templateId.
       if templateId = ''510'' then
         orPanic client (index record 1) (\<lambda>serialNo.
           let client = slogInfo client ''A User scheduled a RESTART operation''
                 [(''templateId'', Str templateId), (''serialNo'', Str serialNo)];
               client = publishSmartRestMessage client ''501,c8y_Restart'';
               client = publishSmartRestMessage client ''503,c8y_Restart''
           in (Returned, client))
       else if templateId = ''511'' then
         orPanic client (index record 1) (\<lambda>serialNo.
         orPanic client (index record 2) (\<lambda>command.
           let client = slogInfo client ''A User scheduled a SHELL operation''
                 [(''templateId'', Str templateId), (''serialNo'', Str serialNo),
                  (''command'', Str command)];
               client = publishSmartRestMessage client ''501,c8y_Command'';
               client = publishSmartRestMessage client ''503,c8y_Command''
           in (Returned, client)))
       else if templateId = ''515'' then
         orPanic client (index record 2) (\<lambda>fwName.
         orPanic client (index record 3) (\<lambda>fwVersion.
         orPanic client (index record 4) (\<lambda>fwUrl.
         orPanic client (index record 1) (\<lambda>serialNo.
           let client = slogInfo client ''A User scheduled a FIRMWARE UPDATE operation''
                 [(''templateId'', Str templateId), (''serialNo'', Str serialNo),
                  (''firmwareName'', Str fwName), (''firmwareVersion'', Str fwVersion),
                  (''firmwareDownloadUrl'', Str fwUrl)];
               client = publishSmartRestMessage client ''501,c8y_Firmware'';
               client = publishSmartRestMessage client (firmwareRow fwName fwVersion fwUrl);
               client = publishSmartRestMessage client ''503,c8y_Firmware''
           in (Returned, client)))))
       else if templateId = ''522'' then
         orPanic client (index record 1) (\<lambda>serialNo.
         orPanic client (index record 2) (\<lambda>logfileName.
         orPanic client (index record 3) (\<lambda>startDate.
         orPanic client (index record 4) (\<lambda>endDate.
         orPanic client (index record 5) (\<lambda>searchText.
         orPanic client (index record 5) (\<lambda>maxLines.
           let client = slogInfo client ''A User scheduled a LOG FILE RETRIEVAL operation''
                 [(''templateId'', Str templateId), (''serialNo'', Str serialNo),
                  (''logfileName'', Str logfileName), (''startDate'', Str startDate),
                  (''endDate'', Str endDate), (''searchText'', Str searchText),
                  (''maxLines'', Str maxLines)];
               client = publishSmartRestMessage client ''501,c8y_LogfileRequest'';
               client = publishSmartRestMessage client ''503,c8y_LogfileRequest''
           in (Returned, client)))))))
       else if templateId = ''528'' then
         orPanic client (receivedSoftwarePackages record) (\<lambda>packages.
         orPanic client (index record 1) (\<lambda>serialNo.
           let client = slogInfo client ''A User scheduled a SOFTWARE UPDATE operation''
                 [(''templateId'', Str templateId), (''serialNo'', Str serialNo),
                  (''softwarePackages'', Maps packages)];
               client = publishSmartRestMessage client ''501,c8y_SoftwareUpdate'';
               client = publishSmartRestMessage client
                 ''116,software1,version1,url1,software2,,url2,software3,version3'';
               client = publishSmartRestMessage client ''503,c8y_SoftwareUpdate''
           in (Returned, client)))
       else if templateId = ''530'' then
         orPanic client (index record 1) (\<lambda>serialNo.
         orPanic client (index record 2) (\<lambda>ip.
         orPanic client (index record 3) (\<lambda>port.
         orPanic client (index record 4) (\<lambda>connectionKey.
           let client = slogInfo client ''A User requested REMOTE SSH ACCESS to a Device''
                 [(''templateId'', Str templateId), (''serialNo'', Str serialNo),
                  (''ip'', Str ip), (''port'', Str port), (''connectionKey'', Str connectionKey)];
               client = publishSmartRestMessage client ''501,c8y_RemoteAccessConnect'';
               client = publishSmartRestMessage client ''503,c8y_RemoteAccessConnect''
           in (Returned, client)))))
       else
         (Returned,
          slogInfo client ''A User requested an Operation that is not supported by the Device''
            [(''templateId'', Str templateId), (''payload'', Strs record)]))"

text \<open>
  \<^verbatim>\<open>handleReceivedMessage\<close>: log the message, parse the whole payload, drop the parser's
  error (\<^verbatim>\<open>records, _ := reader.ReadAll()\<close>, so \<open>records\<close> is empty after an error) and
  handle \<^verbatim>\<open>records[0]\<close>.
\<close>

definition decodedRecords :: "string \<Rightarrow> string list list" where
  "decodedRecords message = (case ReadAll message of Inl e \<Rightarrow> [] | Inr records \<Rightarrow> records)"

definition handleReceivedMessage :: "client \<Rightarrow> mqttMessage \<Rightarrow> outcome \<times> client" where
  "handleReceivedMessage client msg =
     (let topic = msgTopic msg;
          message = msgPayload msg;
          client = slogInfo client ''Received MQTT message''
            [(''topic'', Str topic), (''msg'', Str message)];
          client = slogInfo client ''Detecting type of Operation now...'' [];
          records = decodedRecords message
      in orPanic client (index records 0) (\<lambda>record. handleRecord client record))"

section \<open>Vocabulary of the properties\<close>

text \<open>
  A SmartREST row on the wire: the publication that carries it to the upstream topic with
  quality of service 1, not retained.
\<close>

definition smartRest :: "string \<Rightarrow> publication" where
  "smartRest row = \<lparr>Topic = ''s/us'', Qos = 1, Retained = False, Payload = row\<rparr>"

text \<open>
  The template identifier of a row is its text before the first comma. The operation status
  rows are those of the templates 501 (executing), 502 (failed) and 503 (successful).
\<close>

definition templateOf :: "string \<Rightarrow> string" where
  "templateOf row = takeWhile (\<lambda>c. c \<noteq> comma) row"

definition statusFacts :: "publication list \<Rightarrow> publication list" where
  "statusFacts ps = filter (\<lambda>p. templateOf (Payload p) \<in> {''501'', ''502'', ''503''}) ps"

text \<open>
  The cases of the handler's switch: the template identifiers it knows, the capability name
  each branch puts in its status rows, and two field counts. \<open>fieldsRead\<close> is the number
  of fields a branch reads from the record, one more than the highest index it uses; the log
  file branch reads index 5 twice and never index 6. \<open>sampleFields\<close> is the number of
  fields of the sample message in the comment above the branch (for the software update, of
  its prefix before the package groups); it is 7 for the log file request.
\<close>

definition operationTemplates :: "string list" where
  "operationTemplates = [''510'', ''511'', ''515'', ''522'', ''528'', ''530'']"



definition fieldsRead :: "string \<Rightarrow> nat" where
  "fieldsRead templateId =
     (if templateId = ''510'' then 2
      else if templateId = ''511'' then 3
      else if templateId = ''515'' then 5
      else if templateId = ''522'' then 6
      else if templateId = ''528'' then 2
      else 5)"

text \<open>A client that has published and logged nothing, on a transport that reports no error.\<close>

definition freshClient :: client where
  "freshClient = \<lparr>tokenError = (\<lambda>p. None), published = [], logged = []\<rparr>"

text \<open>A transport that answers every publish with an error, and a fresh client on it.\<close>

definition failingTransport :: "publication \<Rightarrow> string option" where
  "failingTransport p = Some ''not connected''"

definition disconnectedClient :: client where
  "disconnectedClient = freshClient\<lparr>tokenError := failingTransport\<rparr>"

text \<open>An operation message as the subscription to \<^verbatim>\<open>s/ds\<close> delivers it.\<close>

definition operation :: "string \<Rightarrow> mqttMessage" where
  "operation payload = \<lparr>msgTopic = ''s/ds'', msgPayload = payload\<rparr>"

text \<open>
  One publication can carry several rows, one per line, as the telemetry batch does.
  \<open>wireRows\<close> lists the rows of a sequence of publications in the order they are sent,
  \<open>statusRows\<close> the operation status rows among them.
\<close>

fun splitRows :: "string \<Rightarrow> string list" where
  "splitRows [] = [[]]"
| "splitRows (c # cs) =
     (if c = newline then [] # splitRows cs
      else (case splitRows cs of [] \<Rightarrow> [[c]] | row # rows \<Rightarrow> (c # row) # rows))"

definition wireRows :: "publication list \<Rightarrow> string list" where
  "wireRows ps = concat (map (\<lambda>p. splitRows (Payload p)) ps)"

definition statusRows :: "publication list \<Rightarrow> string list" where
  "statusRows ps = filter (\<lambda>row. templateOf row \<in> {''501'', ''502'', ''503''}) (wireRows ps)"


text \<open>
  Encoding as the spec names it, without any quoting: the fields joined by commas. The rows
  that the code builds from variable fields are compared with it. A sequence of fields is
  safe for this encoding when it is not empty and not the single empty field, no field has
  a comma, a quote or a newline, and the last field does not end with a carriage return.
\<close>

fun encodeVerbatim :: "string list \<Rightarrow> string" where
  "encodeVerbatim [] = []"
| "encodeVerbatim [field] = field"
| "encodeVerbatim (field # others) = field @ comma # encodeVerbatim others"

definition verbatimSafe :: "string list \<Rightarrow> bool" where
  "verbatimSafe row =
     (row \<noteq> [] \<and> row \<noteq> [[]] \<and>
      list_all (\<lambda>field. comma \<notin> set field \<and> quote \<notin> set field \<and> newline \<notin> set field) row \<and>
      (last row = [] \<or> last (last row) \<noteq> carriageReturn))"

text \<open>A firmware name with a carriage return inside.\<close>

definition crName :: string where "crName = [CHR ''f'', carriageReturn, CHR ''w'']"

text \<open>
  A firmware update whose firmware name contains a comma, quoted as CSV requires:
  \<^verbatim>\<open>515,dev1,"a,b",1.0,u\<close>.
\<close>

definition quotedFirmwarePayload :: string where
  "quotedFirmwarePayload = ''515,dev1,'' @ [quote] @ ''a,b'' @ [quote] @ '',1.0,u''"

text \<open>Package \<open>i\<close> of a software update record, as the loop builds it.\<close>

definition packageAt :: "string list \<Rightarrow> nat \<Rightarrow> (string \<rightharpoonup> string)" where
  "packageAt record i = [''name'' \<mapsto> record ! (2 + i * 4), ''version'' \<mapsto> record ! (2 + i * 4 + 1),
      ''url'' \<mapsto> record ! (2 + i * 4 + 2), ''action'' \<mapsto> record ! (2 + i * 4 + 3)]"

section \<open>Basic facts\<close>

lemma publishMqttMessage_eq:
  "publishMqttMessage client topic message =
     client\<lparr>published := published client @ [\<lparr>Topic = topic, Qos = 1, Retained = False, Payload = message\<rparr>],
            logged := logged client @ [\<lparr>logMsg = ''Published Message'',
              logArgs = [(''topic'', Str topic), (''msg'', Str message), (''qos'', Byte 1), (''retained'', Bool False)]\<rparr>]\<rparr>"
  by (simp add: publishMqttMessage_def Publish_def slogInfo_def Let_def)

lemma published_publishSmartRestMessage [simp]:
  "published (publishSmartRestMessage client row) = published client @ [smartRest row]"
  by (simp add: publishSmartRestMessage_def publishMqttMessage_eq smartRest_def)

lemma published_slogInfo [simp]: "published (slogInfo client m as) = published client"
  by (simp add: slogInfo_def)

lemma statusFacts_append [simp]: "statusFacts (ps @ qs) = statusFacts ps @ statusFacts qs"
  by (simp add: statusFacts_def)

lemma statusFacts_Nil [simp]: "statusFacts [] = []"
  by (simp add: statusFacts_def)

lemma Payload_smartRest [simp]: "Payload (smartRest row) = row"
  by (simp add: smartRest_def)

lemma statusFacts_Cons [simp]:
  "statusFacts (p # ps) =
     (if templateOf (Payload p) \<in> {''501'', ''502'', ''503''} then [p] else []) @ statusFacts ps"
  by (simp add: statusFacts_def)

lemma templateOf_simps [simp]:
  "templateOf [] = []"
  "templateOf (c # cs) = (if c = comma then [] else c # templateOf cs)"
  by (simp_all add: templateOf_def)


lemma statusRows_append [simp]: "statusRows (ps @ qs) = statusRows ps @ statusRows qs"
  by (simp add: statusRows_def wireRows_def)

lemma statusRows_Nil [simp]: "statusRows [] = []"
  by (simp add: statusRows_def wireRows_def)



lemma nat_countSoftwarePackages: "nat (countSoftwarePackages record) = (length record - 2) div 4"
proof (cases "2 \<le> length record")
  case True
  then have "countSoftwarePackages record = int ((length record - 2) div 4)"
    by (simp add: countSoftwarePackages_def signed_divide_int_def sgn_if zdiv_int of_nat_diff)
  then show ?thesis by simp
next
  case False
  then have "length record = 0 \<or> length record = 1" by arith
  then show ?thesis
    by (auto simp: countSoftwarePackages_def signed_divide_int_def sgn_if)
qed

lemma collect_map:
  "(\<And>x. x \<in> set xs \<Longrightarrow> f x = Inr (g x)) \<Longrightarrow> collect (map f xs) = Inr (map g xs)"
  by (induction xs) simp_all

lemma softwarePackage_in_range:
  "2 + i * 4 + 3 < length record \<Longrightarrow> softwarePackage record i = Inr (packageAt record i)"
  by (simp add: softwarePackage_def index_def packageAt_def)

lemma receivedSoftwarePackages_eq:
  "receivedSoftwarePackages record = Inr (map (packageAt record) [0..<(length record - 2) div 4])"
  unfolding receivedSoftwarePackages_def nat_countSoftwarePackages
proof (rule collect_map)
  fix i assume "i \<in> set [0..<(length record - 2) div 4]"
  then have "i < (length record - 2) div 4" by simp
  then have "2 + i * 4 + 3 < length record" by arith
  then show "softwarePackage record i = Inr (packageAt record i)"
    by (rule softwarePackage_in_range)
qed

lemmas handler_defs = handleRecord_def orPanic_def index_def Let_def


lemma readLines_no_newline:
  "newline \<notin> set s \<Longrightarrow> readLines cur s = (if cur @ s = [] then [] else [lastLine (cur @ s)])"
  by (induction s arbitrary: cur) auto

lemma parseField_plain_last:
  assumes "comma \<notin> set f" and "quote \<notin> set f" and "newline \<notin> set f"
  shows "parseField f rest = Inr ([f], rest)"
proof -
  from assms(2) have unquoted: "f = [] \<or> hd f \<noteq> quote"
    by (cases f) auto
  from assms(1) have nocomma: "dropWhile (\<lambda>c. c \<noteq> comma) f = []"
    by auto
  from assms(3) have nonl: "lengthNL f = 0"
    by (cases f rule: rev_cases) (auto simp: lengthNL_def)
  show ?thesis
    by (subst parseField.simps) (use unquoted nocomma nonl assms(2) in simp)
qed

lemma parseField_plain_more:
  assumes "comma \<notin> set f" and "quote \<notin> set f"
  shows "parseField (f @ comma # tail) rest =
           (case parseField tail rest of
              Inl e \<Rightarrow> Inl e
            | Inr (fs, left) \<Rightarrow> Inr (f # fs, left))"
proof -
  from assms(2) have unquoted: "hd (f @ comma # tail) \<noteq> quote"
    by (cases f) auto
  from assms(1) have after: "dropWhile (\<lambda>c. c \<noteq> comma) (f @ comma # tail) = comma # tail"
    by (auto simp: dropWhile_append3)
  from assms(1) have before: "takeWhile (\<lambda>c. c \<noteq> comma) (f @ comma # tail) = f"
    by (induction f) auto
  show ?thesis
    by (subst parseField.simps) (use unquoted assms(2) in \<open>simp add: after before\<close>)
qed

lemma encodeVerbatim_Cons:
  "others \<noteq> [] \<Longrightarrow> encodeVerbatim (field # others) = field @ comma # encodeVerbatim others"
  by (cases others) simp_all

lemma parseField_encodeVerbatim:
  assumes "row \<noteq> []"
    and "list_all (\<lambda>field. comma \<notin> set field \<and> quote \<notin> set field \<and> newline \<notin> set field) row"
  shows "parseField (encodeVerbatim row) rest = Inr (row, rest)"
  using assms
proof (induction row rule: list_nonempty_induct)
  case (single field)
  then show ?case by (simp add: parseField_plain_last)
next
  case (cons field others)
  then show ?case by (simp add: encodeVerbatim_Cons parseField_plain_more)
qed

lemma newline_encodeVerbatim:
  "list_all (\<lambda>field. comma \<notin> set field \<and> quote \<notin> set field \<and> newline \<notin> set field) row \<Longrightarrow>
   newline \<notin> set (encodeVerbatim row)"
  by (induction row rule: encodeVerbatim.induct) auto

lemma encodeVerbatim_empty: "encodeVerbatim row = [] \<longleftrightarrow> row = [] \<or> row = [[]]"
  by (induction row rule: encodeVerbatim.induct) auto

lemma last_encodeVerbatim:
  "row \<noteq> [] \<Longrightarrow> last row \<noteq> [] \<Longrightarrow> last (encodeVerbatim row) = last (last row)"
proof (induction row rule: encodeVerbatim.induct)
  case (3 field v va)
  from "3.prems" have "v # va \<noteq> [[]]" by auto
  then have "encodeVerbatim (v # va) \<noteq> []" by (simp add: encodeVerbatim_empty)
  with 3 show ?case by simp
qed simp_all

lemma last_encodeVerbatim_comma:
  "row \<noteq> [] \<Longrightarrow> row \<noteq> [[]] \<Longrightarrow> last row = [] \<Longrightarrow> last (encodeVerbatim row) = comma"
proof (induction row rule: encodeVerbatim.induct)
  case (3 field v va)
  show ?case
  proof (cases "v # va = [[]]")
    case True
    then show ?thesis by simp
  next
    case False
    then have "encodeVerbatim (v # va) \<noteq> []" by (simp add: encodeVerbatim_empty)
    with 3 False show ?thesis by simp
  qed
qed simp_all

lemma smartRest_rowsI:
  assumes "take (length ps) qs = ps"
    and "\<And>p. p \<in> set (drop (length ps) qs) \<Longrightarrow> p = smartRest (Payload p)"
  shows "\<exists>rows. qs = ps @ map smartRest rows"
proof -
  from assms(2) have "map (\<lambda>p. smartRest (Payload p)) (drop (length ps) qs) = drop (length ps) qs"
    by (simp add: map_idI)
  then have "drop (length ps) qs = map smartRest (map Payload (drop (length ps) qs))"
    by (simp add: comp_def)
  moreover have "qs = take (length ps) qs @ drop (length ps) qs" by simp
  ultimately have "qs = ps @ map smartRest (map Payload (drop (length ps) qs))"
    using assms(1) by metis
  then show ?thesis ..
qed

lemma handleRecord_rows:
  "\<exists>rows. published (snd (handleRecord client record)) = published client @ map smartRest rows"
  apply (rule smartRest_rowsI)
   apply (simp add: handler_defs receivedSoftwarePackages_eq)
  apply (auto simp: handler_defs receivedSoftwarePackages_eq split: if_splits)
  done

lemma published_publishJson [simp]:
  "published (publishJsonViaMqttMessage client topic json) =
     published client @ [\<lparr>Topic = topic, Qos = 1, Retained = False, Payload = json\<rparr>]"
  by (simp add: publishJsonViaMqttMessage_def publishMqttMessage_eq)

lemma published_telemetry:
  "published (generateMeasurementsEventsAlarms sjsonSet now k client) =
     published client @
       concat (map (\<lambda>i. [smartRest telemetryMsg,
                          \<lparr>Topic = ''event/events/create'', Qos = 1, Retained = False,
                             Payload = eventJson sjsonSet (now i)\<rparr>]) [0..<k])"
  by (induction k) (simp_all add: Let_def)

section \<open>The example payloads, decoded\<close>

lemma decoded_firmware:
  "decodedRecords ''515,dev1,fwA,2.0,http://x'' = [[''515'', ''dev1'', ''fwA'', ''2.0'', ''http://x'']]"
  by code_simp

lemma decoded_logfile_short: "decodedRecords ''522,dev1'' = [[''522'', ''dev1'']]"
  by code_simp





lemma decoded_software:
  "decodedRecords ''528,dev1,sw1,1.0,u1,install,sw2,2.0,u2,install'' =
     [[''528'', ''dev1'', ''sw1'', ''1.0'', ''u1'', ''install'', ''sw2'', ''2.0'', ''u2'', ''install'']]"
  by code_simp

lemma decoded_software_partial:
  "decodedRecords ''528,dev1,sw1,1.0,u1'' = [[''528'', ''dev1'', ''sw1'', ''1.0'', ''u1'']]"
  by code_simp

lemma decoded_quoted_firmware:
  "decodedRecords quotedFirmwarePayload = [[''515'', ''dev1'', ''a,b'', ''1.0'', ''u'']]"
  by code_simp

lemma decoded_unquoted_inventory:
  "ReadAll ''115,a,b,1.0,u'' = Inr [[''115'', ''a'', ''b'', ''1.0'', ''u'']]"
  by code_simp

lemma verbatim_conditions_needed:
  "ReadAll (encodeVerbatim [''115'', [CHR ''a'', quote, CHR ''b''], ''1.0'', ''u'']) = Inl ErrBareQuote"
  "ReadAll (encodeVerbatim [''115'', ''a\<newline>b'', ''1.0'', ''u'']) = Inl ErrFieldCount"
  "ReadAll (encodeVerbatim [''115'', ''a'', ''1.0'', [CHR ''u'', carriageReturn]]) =
     Inr [[''115'', ''a'', ''1.0'', ''u'']]"
  "ReadAll (encodeVerbatim [[]]) = Inr []"
  by code_simp+

lemma handleReceivedMessage_first:
  "decodedRecords (msgPayload msg) = record # others \<Longrightarrow>
   handleReceivedMessage client msg =
     handleRecord
       (slogInfo (slogInfo client ''Received MQTT message''
          [(''topic'', Str (msgTopic msg)), (''msg'', Str (msgPayload msg))])
          ''Detecting type of Operation now...'' []) record"
  by (simp add: handleReceivedMessage_def Let_def orPanic_def index_def)

lemma handleReceivedMessage_rows:
  "\<exists>rows. published (snd (handleReceivedMessage client msg)) = published client @ map smartRest rows"
proof (cases "decodedRecords (msgPayload msg)")
  case Nil
  then have "published (snd (handleReceivedMessage client msg)) = published client @ map smartRest []"
    by (simp add: handleReceivedMessage_def Let_def orPanic_def index_def)
  then show ?thesis ..
next
  case (Cons r others)
  then show ?thesis
    using handleRecord_rows [of "slogInfo (slogInfo client ''Received MQTT message''
          [(''topic'', Str (msgTopic msg)), (''msg'', Str (msgPayload msg))])
          ''Detecting type of Operation now...'' []" r]
    by (simp add: handleReceivedMessage_first)
qed

section \<open>Operation lifecycle\<close>




text \<open>
  Claim C2. For the payload \<open>515,dev1,fwA,2.0,http://x\<close> the handler returns and publishes,
  in this order, the executing row \<open>501,c8y_Firmware\<close>, the inventory row
  \<open>115,fwA,2.0,http://x\<close> and the successful row \<open>503,c8y_Firmware\<close>.
\<close>

theorem firmware_update_publishes_in_order:
  "fst (handleReceivedMessage client (operation ''515,dev1,fwA,2.0,http://x'')) = Returned \<and>
   published (snd (handleReceivedMessage client (operation ''515,dev1,fwA,2.0,http://x''))) =
     published client @
       [smartRest ''501,c8y_Firmware'', smartRest ''115,fwA,2.0,http://x'', smartRest ''503,c8y_Firmware'']"
  by (simp add: handleReceivedMessage_first [where others = "[]"] operation_def decoded_firmware
      handler_defs firmwareRow_def)

section \<open>Rows that are too short\<close>

text \<open>
  Claim C3, as the code has it. A record of a known operation template with fewer fields
  than its branch reads ends the handler with Go's index-out-of-range panic; the client is
  unchanged, so nothing was logged for the operation and nothing was published. There is no
  error value for a malformed row.
\<close>

theorem short_row_index_out_of_range:
  assumes "templateId \<in> set operationTemplates"
    and "record \<noteq> []" and "hd record = templateId"
    and "length record < fieldsRead templateId"
  shows "handleRecord client record = (Panicked IndexOutOfRange, client)"
proof -
  from assms(2,3) have r0: "record ! 0 = templateId" by (cases "record") simp_all
  from assms(1) consider "templateId = ''510''" | "templateId = ''511''" | "templateId = ''515''"
    | "templateId = ''522''" | "templateId = ''528''" | "templateId = ''530''"
    by (auto simp: operationTemplates_def)
  then show ?thesis
  proof cases
    case 1 with assms r0 show ?thesis by (simp add: handler_defs fieldsRead_def)
  next
    case 2 with assms r0 show ?thesis by (simp add: handler_defs fieldsRead_def)
  next
    case 3 with assms r0 show ?thesis by (simp add: handler_defs fieldsRead_def)
  next
    case 4 with assms r0 show ?thesis by (simp add: handler_defs fieldsRead_def)
  next
    case 5 with assms r0 show ?thesis by (simp add: handler_defs fieldsRead_def receivedSoftwarePackages_eq)
  next
    case 6 with assms r0 show ?thesis by (simp add: handler_defs fieldsRead_def)
  qed
qed

theorem short_row_index_out_of_range_witness:
  "handleRecord freshClient [''522'', ''dev1''] = (Panicked IndexOutOfRange, freshClient)"
  using short_row_index_out_of_range [of "''522''" "[''522'', ''dev1'']" freshClient]
  by (simp add: operationTemplates_def fieldsRead_def)

text \<open>The row \<open>522,dev1\<close> of the claim raises the index fault the claim excludes.\<close>

theorem logfile_short_row_panics:
  "fst (handleReceivedMessage freshClient (operation ''522,dev1'')) = Panicked IndexOutOfRange"
  by (simp add: handleReceivedMessage_first [where others = "[]"] operation_def decoded_logfile_short
      handler_defs)

section \<open>Software update groups\<close>

text \<open>
  Claim C5. The payload \<open>528,dev1,sw1,1.0,u1,install,sw2,2.0,u2,install\<close> decodes to one
  record from which the handler reads exactly two packages, \<open>sw1\<close> and \<open>sw2\<close>, each with
  name, version, url and action; they are the packages of the line the handler logs for the
  operation.
\<close>

theorem software_update_two_packages:
  "map receivedSoftwarePackages
     (decodedRecords ''528,dev1,sw1,1.0,u1,install,sw2,2.0,u2,install'') =
     [Inr [[''name'' \<mapsto> ''sw1'', ''version'' \<mapsto> ''1.0'', ''url'' \<mapsto> ''u1'', ''action'' \<mapsto> ''install''],
           [''name'' \<mapsto> ''sw2'', ''version'' \<mapsto> ''2.0'', ''url'' \<mapsto> ''u2'', ''action'' \<mapsto> ''install'']]] \<and>
   logged (snd (handleReceivedMessage freshClient
       (operation ''528,dev1,sw1,1.0,u1,install,sw2,2.0,u2,install''))) ! 2 =
     \<lparr>logMsg = ''A User scheduled a SOFTWARE UPDATE operation'',
      logArgs = [(''templateId'', Str ''528''), (''serialNo'', Str ''dev1''),
        (''softwarePackages'', Maps
          [[''name'' \<mapsto> ''sw1'', ''version'' \<mapsto> ''1.0'', ''url'' \<mapsto> ''u1'', ''action'' \<mapsto> ''install''],
           [''name'' \<mapsto> ''sw2'', ''version'' \<mapsto> ''2.0'', ''url'' \<mapsto> ''u2'', ''action'' \<mapsto> ''install'']])]\<rparr>"
proof -
  have two: "[0..<2] = [0, Suc 0]" by (simp add: upt_rec)
  show ?thesis
    by (simp add: decoded_software receivedSoftwarePackages_eq packageAt_def two
        handleReceivedMessage_first [where others = "[]"] operation_def handler_defs
        freshClient_def slogInfo_def publishSmartRestMessage_def publishMqttMessage_eq)
qed

text \<open>
  Claim C6, as the code has it. For a software update record the number of packages is
  \<open>(length record - 2) div 4\<close>, the quotient rounded down: package \<open>i\<close> is made of the
  four fields from index \<open>2 + 4 * i\<close> on, the fields of an incomplete last group are
  ignored, and the handler returns normally whether or not the division is exact.
\<close>

theorem software_groups_rounded_down:
  assumes "2 \<le> length record" and "hd record = ''528''"
  shows "countSoftwarePackages record = int ((length record - 2) div 4) \<and>
         receivedSoftwarePackages record =
           Inr (map (packageAt record) [0..<(length record - 2) div 4]) \<and>
         fst (handleRecord client record) = Returned"
proof -
  from assms have r0: "record ! 0 = ''528''" and ne: "record \<noteq> []" by (cases "record"; simp)+
  from assms(1) have "countSoftwarePackages record = int ((length record - 2) div 4)"
    by (simp add: countSoftwarePackages_def signed_divide_int_def sgn_if zdiv_int of_nat_diff)
  moreover from assms(1) r0 ne have "fst (handleRecord client record) = Returned"
    by (simp add: handler_defs receivedSoftwarePackages_eq)
  ultimately show ?thesis by (simp add: receivedSoftwarePackages_eq)
qed

theorem software_groups_rounded_down_witness:
  "countSoftwarePackages [''528'', ''dev1'', ''sw1'', ''1.0'', ''u1'', ''install'', ''sw2''] = 1 \<and>
   receivedSoftwarePackages [''528'', ''dev1'', ''sw1'', ''1.0'', ''u1'', ''install'', ''sw2''] =
     Inr [[''name'' \<mapsto> ''sw1'', ''version'' \<mapsto> ''1.0'', ''url'' \<mapsto> ''u1'', ''action'' \<mapsto> ''install'']] \<and>
   fst (handleRecord freshClient [''528'', ''dev1'', ''sw1'', ''1.0'', ''u1'', ''install'', ''sw2'']) = Returned"
  using software_groups_rounded_down
    [of "[''528'', ''dev1'', ''sw1'', ''1.0'', ''u1'', ''install'', ''sw2'']" freshClient]
  by (simp add: packageAt_def)

text \<open>
  The five-field row \<open>528,dev1,sw1,1.0,u1\<close> leaves three fields after the prefix; it is
  not rejected: no package is read and the operation is reported as executed.
\<close>

theorem incomplete_group_accepted:
  "map receivedSoftwarePackages (decodedRecords ''528,dev1,sw1,1.0,u1'') = [Inr []] \<and>
   fst (handleReceivedMessage freshClient (operation ''528,dev1,sw1,1.0,u1'')) = Returned \<and>
   published (snd (handleReceivedMessage freshClient (operation ''528,dev1,sw1,1.0,u1''))) =
     [smartRest ''501,c8y_SoftwareUpdate'',
      smartRest ''116,software1,version1,url1,software2,,url2,software3,version3'',
      smartRest ''503,c8y_SoftwareUpdate'']"
  by (simp add: decoded_software_partial receivedSoftwarePackages_eq
      handleReceivedMessage_first [where others = "[]"] operation_def handler_defs
      freshClient_def slogInfo_def)

section \<open>Unsupported operations\<close>

text \<open>
  Claim C7. A record whose template identifier is none of the six operation templates makes
  the handler return normally after one log line that names the operation as not supported;
  it publishes nothing.
\<close>

theorem unsupported_template_no_publish:
  assumes "templateId \<notin> set operationTemplates"
  shows "handleRecord client (templateId # args) =
           (Returned,
            slogInfo client ''A User requested an Operation that is not supported by the Device''
              [(''templateId'', Str templateId), (''payload'', Strs (templateId # args))]) \<and>
         published (snd (handleRecord client (templateId # args))) = published client"
  using assms by (simp add: handler_defs operationTemplates_def)

theorem unsupported_template_no_publish_witness:
  "handleRecord freshClient [''999'', ''dev1''] =
           (Returned,
            slogInfo freshClient ''A User requested an Operation that is not supported by the Device''
              [(''templateId'', Str ''999''), (''payload'', Strs [''999'', ''dev1''])]) \<and>
         published (snd (handleRecord freshClient [''999'', ''dev1''])) = published freshClient"
  using unsupported_template_no_publish [of "''999''" freshClient "[''dev1'']"] by (simp add: operationTemplates_def)

section \<open>Payloads with several rows\<close>




section \<open>Encoding and decoding of rows\<close>

text \<open>
  Claim C8, as the code has it. The rows that the code builds from variable fields, the
  firmware inventory row and the two startup rows with the device name, are the fields
  joined by commas: nothing is quoted. Decoding such a row gives back the fields whenever
  the sequence is safe for this encoding; a carriage return inside a field comes back
  unchanged.
\<close>

theorem verbatim_row_roundtrip:
  assumes "verbatimSafe row"
  shows "ReadAll (encodeVerbatim row) = Inr [row] \<and>
         firmwareRow fwName fwVersion fwUrl = encodeVerbatim [''115'', fwName, fwVersion, fwUrl] \<and>
         hardwareRow name = encodeVerbatim [''110'', name, ''myHardwareModel'', ''1.2.3''] \<and>
         deviceCreationRow name = encodeVerbatim [''100'', name, ''yourDeviceType'']"
proof -
  let ?line = "encodeVerbatim row"
  from assms have ne: "row \<noteq> []" "row \<noteq> [[]]"
    and safe: "list_all (\<lambda>field. comma \<notin> set field \<and> quote \<notin> set field \<and> newline \<notin> set field) row"
    and cr: "last row = [] \<or> last (last row) \<noteq> carriageReturn"
    by (simp_all add: verbatimSafe_def)
  from ne have nonempty: "?line \<noteq> []" by (simp add: encodeVerbatim_empty)
  from safe have single: "newline \<notin> set ?line" by (rule newline_encodeVerbatim)
  from ne cr have "last ?line \<noteq> carriageReturn"
    by (cases "last row = []") (simp_all add: last_encodeVerbatim last_encodeVerbatim_comma)
  with single nonempty have lines: "readLines [] ?line = [?line]"
    by (simp add: readLines_no_newline lastLine_def)
  from single nonempty have "lengthNL ?line = 0"
    by (cases ?line rule: rev_cases) (auto simp: lengthNL_def)
  with nonempty have skip: "length ?line \<noteq> lengthNL ?line" by simp
  from ne safe have parsed: "parseField ?line [] = Inr (row, [])"
    by (simp add: parseField_encodeVerbatim)
  have "readRecords n [] = Inr []" for n
    by (subst readRecords.simps) simp
  then have "readRecords 0 [?line] = Inr [row]"
    by (subst readRecords.simps) (use skip parsed in simp)
  then have "ReadAll ?line = Inr [row]" by (simp add: ReadAll_def lines)
  then show ?thesis
    by (simp add: firmwareRow_def hardwareRow_def deviceCreationRow_def)
qed

theorem verbatim_row_roundtrip_witness:
  "ReadAll (firmwareRow crName ''2.0'' ''http://x'') = Inr [[''115'', crName, ''2.0'', ''http://x'']]"
  using verbatim_row_roundtrip
    [of "[''115'', crName, ''2.0'', ''http://x'']" crName "''2.0''" "''http://x''"]
  by (simp add: verbatimSafe_def crName_def)

text \<open>
  A firmware name with a comma arrives quoted and is sent back unquoted: the inventory row
  for the name \<open>a,b\<close> decodes to five fields, not to the four that were encoded. The other
  conditions are needed as well (\<open>verbatim_conditions_needed\<close>): a quote is a decoding
  error, a newline splits the row, a carriage return at the end of the row is dropped, and
  the single empty field gives an empty line.
\<close>

theorem firmware_name_comma_not_quoted:
  "decodedRecords quotedFirmwarePayload = [[''515'', ''dev1'', ''a,b'', ''1.0'', ''u'']] \<and>
   published (snd (handleReceivedMessage freshClient (operation quotedFirmwarePayload))) ! 1 =
     smartRest (firmwareRow ''a,b'' ''1.0'' ''u'') \<and>
   ReadAll (firmwareRow ''a,b'' ''1.0'' ''u'') = Inr [[''115'', ''a'', ''b'', ''1.0'', ''u'']] \<and>
   ReadAll (firmwareRow ''a,b'' ''1.0'' ''u'') \<noteq> Inr [[''115'', ''a,b'', ''1.0'', ''u'']]"
proof -
  have row: "firmwareRow ''a,b'' ''1.0'' ''u'' = ''115,a,b,1.0,u''"
    by (simp add: firmwareRow_def)
  have "published (snd (handleReceivedMessage freshClient (operation quotedFirmwarePayload))) ! 1 =
     smartRest (firmwareRow ''a,b'' ''1.0'' ''u'')"
    by (simp add: handleReceivedMessage_first [where others = "[]"] operation_def
        decoded_quoted_firmware handler_defs freshClient_def slogInfo_def)
  then show ?thesis
    by (simp add: decoded_quoted_firmware row decoded_unquoted_inventory)
qed

section \<open>Publishing\<close>

text \<open>
  Claim C9, as the code has it. \<^verbatim>\<open>publishMqttMessage\<close> returns nothing. It makes one
  \<^verbatim>\<open>Publish\<close> call with quality of service 1, not retained, whose token carries the
  transport's answer, and then writes the log line \<open>Published Message\<close>; the answer is
  never read, so with any answer of the transport the call and the log line are the same.
\<close>

theorem publish_ignores_token_error:
  "fst (Publish client topic 1 False message) =
     tokenError client \<lparr>Topic = topic, Qos = 1, Retained = False, Payload = message\<rparr> \<and>
   publishMqttMessage client topic message =
     client\<lparr>published := published client @
               [\<lparr>Topic = topic, Qos = 1, Retained = False, Payload = message\<rparr>],
            logged := logged client @
               [\<lparr>logMsg = ''Published Message'',
                 logArgs = [(''topic'', Str topic), (''msg'', Str message), (''qos'', Byte 1),
                            (''retained'', Bool False)]\<rparr>]\<rparr> \<and>
   publishMqttMessage (client\<lparr>tokenError := answer\<rparr>) topic message =
     (publishMqttMessage client topic message)\<lparr>tokenError := answer\<rparr>"
  by (simp add: publishMqttMessage_eq Publish_def Let_def)

text \<open>
  On a transport that answers every publish with an error, the token carries the error, and
  the caller sees what it sees without the error, the line \<open>Published Message\<close> included.
\<close>

theorem transport_error_swallowed:
  "fst (Publish disconnectedClient ''s/us'' 1 False ''501,c8y_Restart'') = Some ''not connected'' \<and>
   published (publishMqttMessage disconnectedClient ''s/us'' ''501,c8y_Restart'') =
     published (publishMqttMessage freshClient ''s/us'' ''501,c8y_Restart'') \<and>
   logged (publishMqttMessage disconnectedClient ''s/us'' ''501,c8y_Restart'') =
     logged (publishMqttMessage freshClient ''s/us'' ''501,c8y_Restart'') \<and>
   map logMsg (logged (publishMqttMessage disconnectedClient ''s/us'' ''501,c8y_Restart'')) =
     [''Published Message'']"
  by (simp add: Publish_def publishMqttMessage_eq disconnectedClient_def failingTransport_def
      freshClient_def)

text \<open>
  Claim C10. Every SmartREST row goes through \<^verbatim>\<open>publishSmartRestMessage\<close>, which publishes it
  to the topic \<open>s/us\<close> with quality of service 1 and not retained. This holds on every
  outbound path: the startup sequence (device creation, capabilities, device properties),
  every round of the telemetry loop, and the operation handler, which publishes SmartREST
  rows only. The two JSON documents go to their own topics.
\<close>

theorem smartrest_rows_upstream_qos1:
  "published (publishSmartRestMessage client row) =
     published client @ [\<lparr>Topic = ''s/us'', Qos = 1, Retained = False, Payload = row\<rparr>] \<and>
   published (mainStartup client) =
     published client @
       map smartRest
         [''100,showcase-device-01,yourDeviceType'',
          ''114,c8y_Firmware,c8y_Restart,c8y_SoftwareList,c8y_SoftwareUpdate,c8y_LogfileRequest,c8y_RemoteAccessConnect,c8y_DeviceProfile'',
          ''115,firmwareName,firmwareVersion,firmwareUrl'',
          ''116,software1,1.0.1,url1,software2,1.0.2,url2,software3,1.0.3'',
          ''110,showcase-device-01,myHardwareModel,1.2.3'',
          ''112,50.323423,6.423423'',
          ''118,dpkg,container,logread'',
          ''122,your-device-agent,0.1,https://cumulocity.com,'' @ [quote] @ ''Korbinian Butz'' @ [quote],
          ''117,60''] @
       [\<lparr>Topic = ''inventory/managedObjects/update/kobu-sn-7123'', Qos = 1, Retained = False,
          Payload = customFragment\<rparr>] \<and>
   (\<exists>rows. published (snd (handleReceivedMessage client msg)) =
      published client @ map smartRest rows) \<and>
   published (generateMeasurementsEventsAlarms sjsonSet now k client) =
     published client @
       concat (map (\<lambda>i. [smartRest telemetryMsg,
                          \<lparr>Topic = ''event/events/create'', Qos = 1, Retained = False,
                             Payload = eventJson sjsonSet (now i)\<rparr>]) [0..<k])"
proof -
  have startup: "published (mainStartup client) =
     published client @
       map smartRest
         [''100,showcase-device-01,yourDeviceType'',
          ''114,c8y_Firmware,c8y_Restart,c8y_SoftwareList,c8y_SoftwareUpdate,c8y_LogfileRequest,c8y_RemoteAccessConnect,c8y_DeviceProfile'',
          ''115,firmwareName,firmwareVersion,firmwareUrl'',
          ''116,software1,1.0.1,url1,software2,1.0.2,url2,software3,1.0.3'',
          ''110,showcase-device-01,myHardwareModel,1.2.3'',
          ''112,50.323423,6.423423'',
          ''118,dpkg,container,logread'',
          ''122,your-device-agent,0.1,https://cumulocity.com,'' @ [quote] @ ''Korbinian Butz'' @ [quote],
          ''117,60''] @
       [\<lparr>Topic = ''inventory/managedObjects/update/kobu-sn-7123'', Qos = 1, Retained = False,
          Payload = customFragment\<rparr>]"
    by (simp add: mainStartup_def setDeviceProperties_def deviceName_def deviceSerial_def Let_def
        deviceCreationRow_def hardwareRow_def)
  have single: "published (publishSmartRestMessage client row) =
     published client @ [\<lparr>Topic = ''s/us'', Qos = 1, Retained = False, Payload = row\<rparr>]"
    by (simp add: smartRest_def)
  from single startup handleReceivedMessage_rows [of client msg]
    published_telemetry [of sjsonSet now k client]
  show ?thesis by blast
qed

end
